theory Spec2Isabelle
  imports Complex_Main "HOL-Library.Monad_Syntax"
begin

section \<open>Cover printer: grid layout, image fit and settings\<close>

text \<open>
  A shallow embedding of \<^verbatim>\<open>AppComponent\<close> (app.component.ts) and of
  \<^verbatim>\<open>StorageService\<close> (storage.service.ts).

  Numbers. A JavaScript number is modelled by a \<^typ>\<open>real\<close>: arithmetic is exact, so
  rounding, overflow and the sign of zero are outside the model, and every input is
  taken to be a finite number. The non-finite values that a division by zero produces
  are not reals; they are modelled where they arise: \<open>Math.floor(a / d)\<close> has its
  own result type below, and the pan and zoom code returns \<open>None\<close> when it divides by
  zero.
\<close>

subsection \<open>Data\<close>

datatype shape = Rectangular | Round

record paperSize =
  label :: string
  width :: real
  height :: real

text \<open>
  The interface \<^verbatim>\<open>PlaceholderState\<close>. The field \<^verbatim>\<open>id\<close> is \<open>id_ph\<close> and
  \<^verbatim>\<open>top\<close> is \<open>top_mm\<close> here (both names are taken in HOL); the two optional
  flags are options.
\<close>

record placeholderState =
  id_ph :: int
  imageData :: "string option"
  offsetX :: real
  offsetY :: real
  scale :: real
  imageWidth :: real
  imageHeight :: real
  left :: real
  top_mm :: real
  isDragOver :: "bool option"
  isDraggingImage :: "bool option"

text \<open>
  \<^verbatim>\<open>errorMessage\<close> is a template literal. The model keeps which template it is and
  the numbers interpolated into it, in the order they appear in the text; the rendering
  of a number as text is not modelled.
  \<^item> \<open>NoMessage\<close>: the empty string;
  \<^item> \<open>WidthExceeds pw m m2 paper required available\<close>: "Error: Picture width (pw mm)
    plus margins (2 x m mm = m2 mm) exceeds paper width (paper mm). Required: required mm,
    available: available mm.";
  \<^item> \<open>HeightExceeds\<close>: the same text for the height;
  \<^item> \<open>NoSpace pw ph aw ah\<close>: "Error: No space for pictures on the selected paper.
    Picture size: pw x ph mm, available area after margins: aw x ah mm. Please reduce
    picture size or margins."
\<close>

datatype message =
    NoMessage
  | WidthExceeds real real real real real real
  | HeightExceeds real real real real real real
  | NoSpace real real real real

text \<open>
  \<open>localStorage\<close>: the stored items, and whether reading or writing throws (storage
  disabled, quota exceeded); every access of the service is inside a \<open>try\<close>.
\<close>

record localStorage =
  items :: "string \<rightharpoonup> string"
  readFails :: bool
  writeFails :: bool

text \<open>
  The fields of \<^verbatim>\<open>AppComponent\<close> that the modelled methods read or write. The
  component's \<^verbatim>\<open>offsetX\<close> and \<^verbatim>\<open>offsetY\<close> (the centring offsets of the grid) are
  \<open>gridOffsetX\<close> and \<open>gridOffsetY\<close>, apart from the placeholder's fields of the same
  name. \<open>isDarkMode\<close> is the value of the signal.
\<close>

record component =
  isDarkMode :: bool
  selectedPaperSize :: paperSize
  selectedPaperSizeIndex :: real
  pictureWidth :: real
  pictureHeight :: real
  placeholderShape :: shape
  margins :: real
  spacing :: real
  allowWhitespace :: bool
  showCropMarks :: bool
  hasLayoutError :: bool
  errorMessage :: message
  rows :: int
  columns :: int
  placeholders :: "placeholderState list"
  gridOffsetX :: real
  gridOffsetY :: real
  storage :: localStorage

text \<open>The paper sizes, in cm. The multiplication sign of the first two labels is the code unit \<open>0xD7\<close>.\<close>

definition paperSizes :: "paperSize list" where
  "paperSizes =
     [\<lparr>label = ''10'' @ [CHR 0xD7] @ ''15 cm'', width = 10, height = 15\<rparr>,
      \<lparr>label = ''13'' @ [CHR 0xD7] @ ''18 cm'', width = 13, height = 18\<rparr>,
      \<lparr>label = ''A5'', width = 14.8, height = 21\<rparr>,
      \<lparr>label = ''A4'', width = 21, height = 29.7\<rparr>]"

subsection \<open>calculateGrid\<close>

text \<open>
  \<open>Math.floor(a / d)\<close> on finite \<open>a\<close> and \<open>d\<close>: an integer when \<open>d\<close> is not zero,
  and otherwise what JavaScript's division gives: \<open>Infinity\<close>, \<open>-Infinity\<close> or
  \<open>NaN\<close>, which \<open>Math.floor\<close> returns unchanged.
\<close>

datatype count = Finite int | PosInfinity | NegInfinity | NaN

definition floorDiv :: "real \<Rightarrow> real \<Rightarrow> count" where
  "floorDiv a d =
     (if d \<noteq> 0 then Finite \<lfloor>a / d\<rfloor>
      else if 0 < a then PosInfinity
      else if a < 0 then NegInfinity
      else NaN)"

text \<open>The comparison \<open>n <= 0\<close>: false on \<open>NaN\<close>.\<close>

fun leZero :: "count \<Rightarrow> bool" where
  "leZero (Finite n) = (n \<le> 0)"
| "leZero NegInfinity = True"
| "leZero PosInfinity = False"
| "leZero NaN = False"

datatype exn = RangeError | StorageError | SyntaxError

text \<open>The locals of \<^verbatim>\<open>calculateGrid\<close>, as functions of the component.\<close>

definition paperWidthMm :: "component \<Rightarrow> real" where
  "paperWidthMm st = width (selectedPaperSize st) * 10"

definition paperHeightMm :: "component \<Rightarrow> real" where
  "paperHeightMm st = height (selectedPaperSize st) * 10"

definition pictureWidthMm :: "component \<Rightarrow> real" where
  "pictureWidthMm st = pictureWidth st"

definition pictureHeightMm :: "component \<Rightarrow> real" where
  "pictureHeightMm st =
     (if placeholderShape st = Round then pictureWidth st else pictureHeight st)"

definition minRequiredWidth :: "component \<Rightarrow> real" where
  "minRequiredWidth st = pictureWidthMm st + 2 * margins st"

definition minRequiredHeight :: "component \<Rightarrow> real" where
  "minRequiredHeight st = pictureHeightMm st + 2 * margins st"

definition availableWidth :: "component \<Rightarrow> real" where
  "availableWidth st = paperWidthMm st - 2 * margins st"

definition availableHeight :: "component \<Rightarrow> real" where
  "availableHeight st = paperHeightMm st - 2 * margins st"

text \<open>The values assigned to \<^verbatim>\<open>this.columns\<close> and \<^verbatim>\<open>this.rows\<close> (lines 196, 197).\<close>

definition fitColumns :: "component \<Rightarrow> count" where
  "fitColumns st =
     floorDiv (availableWidth st + spacing st) (pictureWidthMm st + spacing st)"

definition fitRows :: "component \<Rightarrow> count" where
  "fitRows st =
     floorDiv (availableHeight st + spacing st) (pictureHeightMm st + spacing st)"

text \<open>The three error exits: flag and message set, the grid emptied.\<close>

definition layoutError :: "message \<Rightarrow> component \<Rightarrow> component" where
  "layoutError msg st =
     st\<lparr>hasLayoutError := True, errorMessage := msg,
        rows := 0, columns := 0, placeholders := []\<rparr>"

text \<open>The object that the \<open>map\<close> callback returns for one array index.\<close>

definition newPlaceholder ::
  "real \<Rightarrow> real \<Rightarrow> real \<Rightarrow> real \<Rightarrow> int \<Rightarrow> nat \<Rightarrow> placeholderState" where
  "newPlaceholder offX offY stepX stepY cols index =
     (let row = int index div cols;
          col = int index mod cols
      in \<lparr>id_ph = int index, imageData = None, offsetX = 0, offsetY = 0, scale = 1,
          imageWidth = 0, imageHeight = 0,
          left = offX + real_of_int col * stepX,
          top_mm = offY + real_of_int row * stepY,
          isDragOver = Some False, isDraggingImage = None\<rparr>)"

text \<open>
  Lines 209 to 236, for finite positive counts \<open>r\<close> and \<open>c\<close>. \<open>Array(n)\<close> throws a
  \<open>RangeError\<close> when \<open>n\<close> is not an integer below \<open>2^32\<close>; the component as the
  throw leaves it is not modelled, and neither is the memory that a long array needs.
\<close>

definition placeGrid :: "int \<Rightarrow> int \<Rightarrow> component \<Rightarrow> exn + component" where
  "placeGrid r c st =
     (let totalGridWidth = real_of_int c * pictureWidthMm st + real_of_int (c - 1) * spacing st;
          totalGridHeight = real_of_int r * pictureHeightMm st + real_of_int (r - 1) * spacing st;
          offX = margins st + (availableWidth st - totalGridWidth) / 2;
          offY = margins st + (availableHeight st - totalGridHeight) / 2;
          totalPlaceholders = r * c
      in if totalPlaceholders > 4294967295 then Inl RangeError
         else Inr (st\<lparr>rows := r, columns := c, gridOffsetX := offX, gridOffsetY := offY,
                 placeholders :=
                   map (newPlaceholder offX offY
                          (pictureWidthMm st + spacing st) (pictureHeightMm st + spacing st) c)
                       [0..<nat totalPlaceholders]\<rparr>))"

text \<open>
  \<^verbatim>\<open>calculateGrid\<close>. With an infinite or \<open>NaN\<close> count that passed the check of line
  200, the product \<open>rows * columns\<close> is \<open>Infinity\<close> or \<open>NaN\<close> and \<open>Array\<close> throws.
\<close>

definition calculateGrid :: "component \<Rightarrow> exn + component" where
  "calculateGrid st0 =
     (let st = st0\<lparr>hasLayoutError := False, errorMessage := NoMessage\<rparr>
      in if minRequiredWidth st > paperWidthMm st then
           Inr (layoutError
                  (WidthExceeds (pictureWidthMm st) (margins st) (2 * margins st)
                     (paperWidthMm st) (minRequiredWidth st) (paperWidthMm st)) st)
         else if minRequiredHeight st > paperHeightMm st then
           Inr (layoutError
                  (HeightExceeds (pictureHeightMm st) (margins st) (2 * margins st)
                     (paperHeightMm st) (minRequiredHeight st) (paperHeightMm st)) st)
         else if leZero (fitColumns st) \<or> leZero (fitRows st) then
           Inr (layoutError
                  (NoSpace (pictureWidthMm st) (pictureHeightMm st)
                     (availableWidth st) (availableHeight st)) st)
         else (case (fitRows st, fitColumns st) of
                 (Finite r, Finite c) \<Rightarrow> placeGrid r c st
               | _ \<Rightarrow> Inl RangeError))"

text \<open>
  The field initialisers of the class (lines 46 to 99), over a given \<open>localStorage\<close>.
\<close>

definition initialComponent :: "localStorage \<Rightarrow> component" where
  "initialComponent ls =
     \<lparr>isDarkMode = False, selectedPaperSize = paperSizes ! 0, selectedPaperSizeIndex = 0,
      pictureWidth = 44, pictureHeight = 44, placeholderShape = Rectangular,
      margins = 4, spacing = 2, allowWhitespace = False, showCropMarks = True,
      hasLayoutError = False, errorMessage = NoMessage, rows = 0, columns = 0,
      placeholders = [], gridOffsetX = 0, gridOffsetY = 0, storage = ls\<rparr>"

definition emptyStorage :: localStorage where
  "emptyStorage = \<lparr>items = Map.empty, readFails = False, writeFails = False\<rparr>"

subsection \<open>Pan and zoom\<close>

definition mmToCssPx :: real where
  "mmToCssPx = 96 / 25.4"

datatype axis = AxisX | AxisY

definition constrainOffset :: "component \<Rightarrow> real \<Rightarrow> placeholderState \<Rightarrow> axis \<Rightarrow> real" where
  "constrainOffset st offset placeholder ax =
     (let placeholderWidthPx = pictureWidth st * mmToCssPx;
          placeholderHeightPx = pictureHeight st * mmToCssPx;
          scaledImageWidth = imageWidth placeholder * scale placeholder;
          scaledImageHeight = imageHeight placeholder * scale placeholder
      in case ax of
           AxisX \<Rightarrow>
             if scaledImageWidth \<le> placeholderWidthPx then
               (placeholderWidthPx - scaledImageWidth) / 2
             else
               (let maxOffset = 0;
                    minOffset = placeholderWidthPx - scaledImageWidth
                in max minOffset (min maxOffset offset))
         | AxisY \<Rightarrow>
             if scaledImageHeight \<le> placeholderHeightPx then
               (placeholderHeightPx - scaledImageHeight) / 2
             else
               (let maxOffset = 0;
                    minOffset = placeholderHeightPx - scaledImageHeight
                in max minOffset (min maxOffset offset)))"

text \<open>
  A division whose divisor may be zero: \<open>None\<close> stands for JavaScript's \<open>Infinity\<close>,
  \<open>-Infinity\<close> or \<open>NaN\<close>. A computation that meets one returns \<open>None\<close>, and the
  model says nothing more about it.
\<close>

definition jsDiv :: "real \<Rightarrow> real \<Rightarrow> real option" where
  "jsDiv a b = (if b = 0 then None else Some (a / b))"

definition calculateMinimumScale :: "component \<Rightarrow> placeholderState \<Rightarrow> real option" where
  "calculateMinimumScale st placeholder =
     (let placeholderWidthPx = pictureWidth st * mmToCssPx;
          placeholderHeightPx =
            (if placeholderShape st = Round then pictureWidth st else pictureHeight st)
              * mmToCssPx
      in do {
           minScaleX \<leftarrow> jsDiv placeholderWidthPx (imageWidth placeholder);
           minScaleY \<leftarrow> jsDiv placeholderHeightPx (imageHeight placeholder);
           Some (max minScaleX minScaleY)
         })"

text \<open>
  What \<^verbatim>\<open>onWheel\<close> reads of the event: \<open>deltaY\<close>, the client position, and the left
  and top of the bounding rectangle of the event's current target.
\<close>

record wheelEvent =
  deltaY :: real
  clientX :: real
  clientY :: real
  rectLeft :: real
  rectTop :: real

text \<open>\<open>!placeholder.imageData\<close>: true on \<open>null\<close> and on the empty string.\<close>

definition noImage :: "placeholderState \<Rightarrow> bool" where
  "noImage placeholder \<longleftrightarrow> imageData placeholder = None \<or> imageData placeholder = Some []"

definition onWheel :: "component \<Rightarrow> wheelEvent \<Rightarrow> placeholderState \<Rightarrow> placeholderState option" where
  "onWheel st event placeholder =
     (if noImage placeholder then Some placeholder
      else
        (let mouseX = clientX event - rectLeft event;
             mouseY = clientY event - rectTop event;
             zoomFactor = (if deltaY event < 0 then 1.1 else 1 / 1.1);
             oldScale = scale placeholder
         in do {
              newScale \<leftarrow>
                (if \<not> allowWhitespace st then do {
                   minScale \<leftarrow> calculateMinimumScale st placeholder;
                   Some (max minScale (oldScale * zoomFactor))
                 } else Some (oldScale * zoomFactor));
              imageX \<leftarrow> jsDiv (mouseX - offsetX placeholder) oldScale;
              imageY \<leftarrow> jsDiv (mouseY - offsetY placeholder) oldScale;
              let newOffsetX = mouseX - imageX * newScale;
                  newOffsetY = mouseY - imageY * newScale;
                  scaled = placeholder\<lparr>scale := newScale\<rparr>
              in if \<not> allowWhitespace st then
                   Some (scaled\<lparr>offsetX := constrainOffset st newOffsetX scaled AxisX,
                                offsetY := constrainOffset st newOffsetY scaled AxisY\<rparr>)
                 else Some (scaled\<lparr>offsetX := newOffsetX, offsetY := newOffsetY\<rparr>)
            }))"

subsection \<open>Settings\<close>

text \<open>
  A JSON value. An object is the list of its properties, each key once. A string is the
  list of its code units.
\<close>

datatype json =
    JNull
  | JBool bool
  | JNumber real
  | JString string
  | JArray "json list"
  | JObject "(string \<times> json) list"

definition SETTINGS_KEY :: string where
  "SETTINGS_KEY = ''teddycloud-cover-printer-settings''"

definition DEFAULT_SETTINGS :: "(string \<times> json) list" where
  "DEFAULT_SETTINGS =
     [(''selectedPaperSizeIndex'', JNumber 0),
      (''pictureWidth'', JNumber 44),
      (''pictureHeight'', JNumber 44),
      (''margins'', JNumber 4),
      (''spacing'', JNumber 2),
      (''allowWhitespace'', JBool False),
      (''showCropMarks'', JBool True),
      (''isDarkMode'', JBool False),
      (''placeholderShape'', JString ''rectangular'')]"

text \<open>The decimal text of an array index, the key of an element.\<close>

definition digit :: "nat \<Rightarrow> char" where
  "digit n = ''0123456789'' ! (n mod 10)"

function decimal :: "nat \<Rightarrow> string" where
  "decimal n = (if n < 10 then [digit n] else decimal (n div 10) @ [digit n])"
  by pat_completeness auto
termination
  by (relation "measure id") auto

text \<open>
  The properties that the spread \<open>...v\<close> copies: those of an object, the elements of
  an array and the code units of a string under their indices, and none of a number,
  a boolean or \<open>null\<close>.
\<close>

fun ownProperties :: "json \<Rightarrow> (string \<times> json) list" where
  "ownProperties (JObject kvs) = kvs"
| "ownProperties (JArray xs) = zip (map decimal [0..<length xs]) xs"
| "ownProperties (JString s) = zip (map decimal [0..<length s]) (map (\<lambda>ch. JString [ch]) s)"
| "ownProperties _ = []"

definition getItem :: "localStorage \<Rightarrow> string \<Rightarrow> exn + string option" where
  "getItem ls key = (if readFails ls then Inl StorageError else Inr (items ls key))"

definition setItem :: "localStorage \<Rightarrow> string \<Rightarrow> string \<Rightarrow> exn + localStorage" where
  "setItem ls key v =
     (if writeFails ls then Inl StorageError else Inr (ls\<lparr>items := (items ls)(key \<mapsto> v)\<rparr>))"

text \<open>
  \<^verbatim>\<open>StorageService.loadSettings\<close>. \<open>JSON.parse\<close> is the parameter \<open>parse\<close>, with
  \<open>None\<close> for a \<open>SyntaxError\<close>. The result is the object built at run time, as a map
  from its keys. The \<open>catch\<close> only logs, and control falls to the last \<open>return\<close>.
\<close>

definition loadSettings :: "(string \<Rightarrow> json option) \<Rightarrow> localStorage \<Rightarrow> (string \<rightharpoonup> json)" where
  "loadSettings parse ls =
     (case getItem ls SETTINGS_KEY of
        Inl _ \<Rightarrow> map_of DEFAULT_SETTINGS
      | Inr None \<Rightarrow> map_of DEFAULT_SETTINGS
      | Inr (Some stored) \<Rightarrow>
          if stored = [] then map_of DEFAULT_SETTINGS
          else (case parse stored of
                  None \<Rightarrow> map_of DEFAULT_SETTINGS
                | Some parsed \<Rightarrow> map_of DEFAULT_SETTINGS ++ map_of (ownProperties parsed)))"

text \<open>
  \<^verbatim>\<open>StorageService.saveSettings\<close>, with \<open>JSON.stringify\<close> as the parameter
  \<open>stringify\<close>; a failed write is caught and logged.
\<close>

definition storeSettings :: "(json \<Rightarrow> string) \<Rightarrow> localStorage \<Rightarrow> json \<Rightarrow> localStorage" where
  "storeSettings stringify ls settings =
     (case setItem ls SETTINGS_KEY (stringify settings) of
        Inl _ \<Rightarrow> ls
      | Inr ls' \<Rightarrow> ls')"

definition shapeName :: "shape \<Rightarrow> string" where
  "shapeName s = (case s of Rectangular \<Rightarrow> ''rectangular'' | Round \<Rightarrow> ''round'')"

text \<open>The object literal that \<^verbatim>\<open>AppComponent.saveSettings\<close> passes to the service.\<close>

definition currentSettings :: "component \<Rightarrow> json" where
  "currentSettings st =
     JObject
       [(''selectedPaperSizeIndex'', JNumber (selectedPaperSizeIndex st)),
        (''pictureWidth'', JNumber (pictureWidth st)),
        (''pictureHeight'', JNumber (pictureHeight st)),
        (''margins'', JNumber (margins st)),
        (''spacing'', JNumber (spacing st)),
        (''allowWhitespace'', JBool (allowWhitespace st)),
        (''showCropMarks'', JBool (showCropMarks st)),
        (''isDarkMode'', JBool (isDarkMode st)),
        (''placeholderShape'', JString (shapeName (placeholderShape st)))]"

definition saveSettings :: "(json \<Rightarrow> string) \<Rightarrow> component \<Rightarrow> component" where
  "saveSettings stringify st =
     st\<lparr>storage := storeSettings stringify (storage st) (currentSettings st)\<rparr>"

text \<open>
  \<^verbatim>\<open>restoreSettings\<close>. \<^verbatim>\<open>updatePrintStyles\<close> only rewrites a style element of the
  document and is left out. A throw of \<^verbatim>\<open>calculateGrid\<close> would leave the method
  before the settings are saved.
\<close>

definition restoreSettings :: "(json \<Rightarrow> string) \<Rightarrow> component \<Rightarrow> exn + component" where
  "restoreSettings stringify st =
     (let st1 = st\<lparr>selectedPaperSizeIndex := 0, selectedPaperSize := paperSizes ! 0,
                   pictureWidth := 44, pictureHeight := 44, margins := 4, spacing := 2,
                   allowWhitespace := False, showCropMarks := True,
                   placeholderShape := Rectangular\<rparr>
      in case calculateGrid st1 of
           Inl e \<Rightarrow> Inl e
         | Inr st2 \<Rightarrow> Inr (saveSettings stringify st2))"

subsection \<open>Predicates of the specification\<close>






text \<open>
  The scaled image covers the placeholder: its left and top edges are at or before the
  placeholder's, its right and bottom edges at or beyond. The placeholder is as wide as
  the picture and as high as \<open>pictureHeightMm\<close> says (the width, when round), in CSS
  pixels.
\<close>

definition coversPlaceholder :: "component \<Rightarrow> placeholderState \<Rightarrow> bool" where
  "coversPlaceholder st p \<longleftrightarrow>
     offsetX p \<le> 0 \<and>
     pictureWidthMm st * mmToCssPx \<le> offsetX p + imageWidth p * scale p \<and>
     offsetY p \<le> 0 \<and>
     pictureHeightMm st * mmToCssPx \<le> offsetY p + imageHeight p * scale p"

section \<open>Properties\<close>

subsection \<open>The grid\<close>

lemmas grid_locals = paperWidthMm_def paperHeightMm_def pictureWidthMm_def pictureHeightMm_def
  minRequiredWidth_def minRequiredHeight_def availableWidth_def availableHeight_def
  fitColumns_def fitRows_def


lemma locals_cleared [simp]:
  "paperWidthMm (st\<lparr>hasLayoutError := a, errorMessage := b\<rparr>) = paperWidthMm st"
  "paperHeightMm (st\<lparr>hasLayoutError := a, errorMessage := b\<rparr>) = paperHeightMm st"
  "pictureWidthMm (st\<lparr>hasLayoutError := a, errorMessage := b\<rparr>) = pictureWidthMm st"
  "pictureHeightMm (st\<lparr>hasLayoutError := a, errorMessage := b\<rparr>) = pictureHeightMm st"
  "minRequiredWidth (st\<lparr>hasLayoutError := a, errorMessage := b\<rparr>) = minRequiredWidth st"
  "minRequiredHeight (st\<lparr>hasLayoutError := a, errorMessage := b\<rparr>) = minRequiredHeight st"
  "availableWidth (st\<lparr>hasLayoutError := a, errorMessage := b\<rparr>) = availableWidth st"
  "availableHeight (st\<lparr>hasLayoutError := a, errorMessage := b\<rparr>) = availableHeight st"
  "fitColumns (st\<lparr>hasLayoutError := a, errorMessage := b\<rparr>) = fitColumns st"
  "fitRows (st\<lparr>hasLayoutError := a, errorMessage := b\<rparr>) = fitRows st"
  by (simp_all add: grid_locals)

lemma calculateGrid_grid:
  assumes "\<not> minRequiredWidth st > paperWidthMm st" "\<not> minRequiredHeight st > paperHeightMm st"
    and "fitRows st = Finite r" "fitColumns st = Finite c" "1 \<le> r" "1 \<le> c"
  shows "calculateGrid st = placeGrid r c (st\<lparr>hasLayoutError := False, errorMessage := NoMessage\<rparr>)"
  using assms by (simp add: calculateGrid_def Let_def)

lemma calculateGrid_ok:
  assumes "calculateGrid st = Inr st'" "\<not> hasLayoutError st'"
  shows "\<exists>r c. fitRows st = Finite r \<and> fitColumns st = Finite c \<and> 1 \<le> r \<and> 1 \<le> c \<and>
           \<not> minRequiredWidth st > paperWidthMm st \<and> \<not> minRequiredHeight st > paperHeightMm st \<and>
           placeGrid r c (st\<lparr>hasLayoutError := False, errorMessage := NoMessage\<rparr>) = Inr st'"
proof -
  from assms have w: "\<not> minRequiredWidth st > paperWidthMm st"
    by (auto simp: calculateGrid_def Let_def layoutError_def)
  from assms w have h: "\<not> minRequiredHeight st > paperHeightMm st"
    by (auto simp: calculateGrid_def Let_def layoutError_def)
  from assms w h have z: "\<not> leZero (fitColumns st)" "\<not> leZero (fitRows st)"
    by (auto simp: calculateGrid_def Let_def layoutError_def)
  from assms w h z obtain r c where rc: "fitRows st = Finite r" "fitColumns st = Finite c"
    by (cases "fitRows st"; cases "fitColumns st") (simp_all add: calculateGrid_def Let_def)
  with z have "1 \<le> r" "1 \<le> c" by simp_all
  with assms w h rc show ?thesis by (simp add: calculateGrid_grid)
qed

lemma placeGrid_fields:
  assumes "placeGrid r c st = Inr st'"
  shows "rows st' = r" "columns st' = c" "hasLayoutError st' = hasLayoutError st"
    "length (placeholders st') = nat (r * c)"
    "gridOffsetX st' = margins st + (availableWidth st - (real_of_int c * pictureWidthMm st + real_of_int (c - 1) * spacing st)) / 2"
    "gridOffsetY st' = margins st + (availableHeight st - (real_of_int r * pictureHeightMm st + real_of_int (r - 1) * spacing st)) / 2"
    "i < nat (r * c) \<Longrightarrow> placeholders st' ! i =
       newPlaceholder (gridOffsetX st') (gridOffsetY st') (pictureWidthMm st + spacing st) (pictureHeightMm st + spacing st) c i"
  using assms by (auto simp: placeGrid_def Let_def split: if_splits)











lemma initial_grid:
  "calculateGrid (initialComponent ls) = placeGrid 3 2 (initialComponent ls)"
proof -
  have "calculateGrid (initialComponent ls) =
      placeGrid 3 2 ((initialComponent ls)\<lparr>hasLayoutError := False, errorMessage := NoMessage\<rparr>)"
    by (rule calculateGrid_grid)
      (simp_all add: grid_locals initialComponent_def paperSizes_def floorDiv_def)
  moreover have "(initialComponent ls)\<lparr>hasLayoutError := False, errorMessage := NoMessage\<rparr> =
      initialComponent ls"
    by (simp add: initialComponent_def)
  ultimately show ?thesis by simp
qed

lemma initial_grid_result:
  "calculateGrid (initialComponent ls) = Inr (projr (calculateGrid (initialComponent ls)))"
  "\<not> hasLayoutError (projr (calculateGrid (initialComponent ls)))"
  "rows (projr (calculateGrid (initialComponent ls))) = 3"
  "columns (projr (calculateGrid (initialComponent ls))) = 2"
  unfolding initial_grid by (simp_all add: placeGrid_def Let_def initialComponent_def)


text \<open>
  Claim C8. Whenever \<^verbatim>\<open>calculateGrid\<close> returns without a layout error, there is at
  least one row and one column, and the number of placeholders is rows times columns.
\<close>

theorem calculateGrid_result_shape:
  assumes "calculateGrid st = Inr st'" and "\<not> hasLayoutError st'"
  shows "1 \<le> rows st' \<and> 1 \<le> columns st' \<and>
         int (length (placeholders st')) = rows st' * columns st'"
proof -
  from calculateGrid_ok[OF assms] obtain r c where
    rc: "1 \<le> r" "1 \<le> c"
    and p: "placeGrid r c (st\<lparr>hasLayoutError := False, errorMessage := NoMessage\<rparr>) = Inr st'"
    by blast
  from rc have "0 \<le> r * c" by simp
  with placeGrid_fields(1,2,4)[OF p] rc show ?thesis by simp
qed

text \<open>The default settings: 3 rows, 2 columns, 6 placeholders.\<close>

theorem calculateGrid_result_shape_witness:
  "calculateGrid (initialComponent emptyStorage) =
     Inr (projr (calculateGrid (initialComponent emptyStorage))) \<and>
   \<not> hasLayoutError (projr (calculateGrid (initialComponent emptyStorage))) \<and>
   rows (projr (calculateGrid (initialComponent emptyStorage))) = 3 \<and>
   columns (projr (calculateGrid (initialComponent emptyStorage))) = 2 \<and>
   length (placeholders (projr (calculateGrid (initialComponent emptyStorage)))) = 6"
  using calculateGrid_result_shape[OF initial_grid_result(1,2)[of emptyStorage]]
    initial_grid_result[of emptyStorage]
  by simp





text \<open>
  A grid of more than \<open>2^32 - 1\<close> cells is not built: \<open>Array\<close> throws. Pictures of
  1/1024 mm on 10x15 cm paper give 102400 columns and 153600 rows.
\<close>

lemma calculateGrid_array_limit:
  "calculateGrid ((initialComponent emptyStorage)
     \<lparr>pictureWidth := 1 / 1024, pictureHeight := 1 / 1024, margins := 0, spacing := 0\<rparr>)
   = Inl RangeError"
proof -
  let ?st = "(initialComponent emptyStorage)
     \<lparr>pictureWidth := 1 / 1024, pictureHeight := 1 / 1024, margins := 0, spacing := 0\<rparr>"
  have w: "\<not> minRequiredWidth ?st > paperWidthMm ?st"
    by (simp add: grid_locals initialComponent_def paperSizes_def)
  have h: "\<not> minRequiredHeight ?st > paperHeightMm ?st"
    by (simp add: grid_locals initialComponent_def paperSizes_def)
  have c: "fitColumns ?st = Finite 102400"
    by (simp add: grid_locals initialComponent_def paperSizes_def floorDiv_def)
  have r: "fitRows ?st = Finite 153600"
    by (simp add: grid_locals initialComponent_def paperSizes_def floorDiv_def)
  have "calculateGrid ?st =
      placeGrid 153600 102400 (?st\<lparr>hasLayoutError := False, errorMessage := NoMessage\<rparr>)"
    by (rule calculateGrid_grid[OF w h r c]) simp_all
  then show ?thesis by (simp add: placeGrid_def Let_def)
qed

subsection \<open>Pan and zoom\<close>

lemma constrainOffset_x:
  "constrainOffset st offset p AxisX =
     (if imageWidth p * scale p \<le> pictureWidth st * mmToCssPx
      then (pictureWidth st * mmToCssPx - imageWidth p * scale p) / 2
      else max (pictureWidth st * mmToCssPx - imageWidth p * scale p) (min 0 offset))"
  by (simp add: constrainOffset_def Let_def)

lemma constrainOffset_y:
  "constrainOffset st offset p AxisY =
     (if imageHeight p * scale p \<le> pictureHeight st * mmToCssPx
      then (pictureHeight st * mmToCssPx - imageHeight p * scale p) / 2
      else max (pictureHeight st * mmToCssPx - imageHeight p * scale p) (min 0 offset))"
  by (simp add: constrainOffset_def Let_def)



lemma calculateMinimumScale_Some:
  assumes "imageWidth p \<noteq> 0" "imageHeight p \<noteq> 0"
  shows "calculateMinimumScale st p =
     Some (max (pictureWidth st * mmToCssPx / imageWidth p)
               (pictureHeightMm st * mmToCssPx / imageHeight p))"
  using assms by (simp add: calculateMinimumScale_def jsDiv_def Let_def pictureHeightMm_def)

text \<open>
  With a rectangular placeholder, or a picture height equal to the picture width, an
  image at or above the minimum cover scale covers the placeholder once both offsets
  went through \<^verbatim>\<open>constrainOffset\<close>.
\<close>

lemma constrainOffset_covers:
  assumes shape: "placeholderShape st = Rectangular \<or> pictureHeight st = pictureWidth st"
    and img: "0 < imageWidth p" "0 < imageHeight p"
    and m: "calculateMinimumScale st p = Some m" "m \<le> scale p"
  shows "coversPlaceholder st
           (p\<lparr>offsetX := constrainOffset st ox p AxisX,
              offsetY := constrainOffset st oy p AxisY\<rparr>)"
proof -
  have ph: "pictureHeightMm st = pictureHeight st"
    using shape by (auto simp: pictureHeightMm_def)
  from img have nz: "imageWidth p \<noteq> 0" "imageHeight p \<noteq> 0" by simp_all
  from m(1) calculateMinimumScale_Some[OF nz, of st]
  have meq: "m = max (pictureWidth st * mmToCssPx / imageWidth p)
               (pictureHeightMm st * mmToCssPx / imageHeight p)" by simp
  with m(2) have "pictureWidth st * mmToCssPx / imageWidth p \<le> scale p"
    and "pictureHeight st * mmToCssPx / imageHeight p \<le> scale p"
    using ph by simp_all
  with img have w: "pictureWidth st * mmToCssPx \<le> imageWidth p * scale p"
    and h: "pictureHeight st * mmToCssPx \<le> imageHeight p * scale p"
    by (simp_all add: pos_divide_le_eq mult.commute)
  from w h show ?thesis
    unfolding coversPlaceholder_def constrainOffset_x constrainOffset_y ph pictureWidthMm_def
    by (auto simp: max_def min_def)
qed

text \<open>
  Claim C5 at a round placeholder. \<^verbatim>\<open>constrainOffset\<close> takes the placeholder height
  from the picture height also when the placeholder is round, where the grid, the fit
  and the minimum scale take the picture width. Round, 25.4 mm wide (96 pixels) with a
  picture height of 50.8 mm left in the settings, whitespace disallowed, an image of
  96 x 96 pixels at the minimum cover scale 1: the vertical offset is 48 for every
  requested offset, so the upper 48 pixels of the placeholder are not covered.
\<close>

theorem constrainOffset_round_gap:
  "\<not> allowWhitespace ((initialComponent emptyStorage)
       \<lparr>pictureWidth := 25.4, pictureHeight := 50.8, placeholderShape := Round\<rparr>) \<and>
   calculateMinimumScale ((initialComponent emptyStorage)
       \<lparr>pictureWidth := 25.4, pictureHeight := 50.8, placeholderShape := Round\<rparr>)
     \<lparr>id_ph = 0, imageData = Some ''data:image/png;base64,AAAA'', offsetX = 0, offsetY = 0,
      scale = 1, imageWidth = 96, imageHeight = 96, left = 0, top_mm = 0,
      isDragOver = Some False, isDraggingImage = None\<rparr> = Some 1 \<and>
   (\<forall>oy. constrainOffset ((initialComponent emptyStorage)
       \<lparr>pictureWidth := 25.4, pictureHeight := 50.8, placeholderShape := Round\<rparr>) oy
     \<lparr>id_ph = 0, imageData = Some ''data:image/png;base64,AAAA'', offsetX = 0, offsetY = 0,
      scale = 1, imageWidth = 96, imageHeight = 96, left = 0, top_mm = 0,
      isDragOver = Some False, isDraggingImage = None\<rparr> AxisY = 48) \<and>
   (\<forall>ox oy. \<not> coversPlaceholder ((initialComponent emptyStorage)
       \<lparr>pictureWidth := 25.4, pictureHeight := 50.8, placeholderShape := Round\<rparr>)
     \<lparr>id_ph = 0, imageData = Some ''data:image/png;base64,AAAA'',
      offsetX = constrainOffset ((initialComponent emptyStorage)
         \<lparr>pictureWidth := 25.4, pictureHeight := 50.8, placeholderShape := Round\<rparr>) ox
        \<lparr>id_ph = 0, imageData = Some ''data:image/png;base64,AAAA'', offsetX = 0, offsetY = 0,
         scale = 1, imageWidth = 96, imageHeight = 96, left = 0, top_mm = 0,
         isDragOver = Some False, isDraggingImage = None\<rparr> AxisX,
      offsetY = constrainOffset ((initialComponent emptyStorage)
         \<lparr>pictureWidth := 25.4, pictureHeight := 50.8, placeholderShape := Round\<rparr>) oy
        \<lparr>id_ph = 0, imageData = Some ''data:image/png;base64,AAAA'', offsetX = 0, offsetY = 0,
         scale = 1, imageWidth = 96, imageHeight = 96, left = 0, top_mm = 0,
         isDragOver = Some False, isDraggingImage = None\<rparr> AxisY,
      scale = 1, imageWidth = 96, imageHeight = 96, left = 0, top_mm = 0,
      isDragOver = Some False, isDraggingImage = None\<rparr>)"
  by (simp add: initialComponent_def calculateMinimumScale_def jsDiv_def Let_def mmToCssPx_def
      constrainOffset_x constrainOffset_y coversPlaceholder_def pictureHeightMm_def
      pictureWidthMm_def)

lemma onWheel_whitespace:
  assumes "\<not> noImage p" "scale p \<noteq> 0" "allowWhitespace st"
  shows "onWheel st ev p =
     Some (p\<lparr>scale := scale p * (if deltaY ev < 0 then 1.1 else 1 / 1.1),
             offsetX := (clientX ev - rectLeft ev)
                - (clientX ev - rectLeft ev - offsetX p) / scale p
                  * (scale p * (if deltaY ev < 0 then 1.1 else 1 / 1.1)),
             offsetY := (clientY ev - rectTop ev)
                - (clientY ev - rectTop ev - offsetY p) / scale p
                  * (scale p * (if deltaY ev < 0 then 1.1 else 1 / 1.1))\<rparr>)"
  using assms by (simp add: onWheel_def jsDiv_def Let_def)

lemma onWheel_cover:
  assumes "\<not> noImage p" "scale p \<noteq> 0" "\<not> allowWhitespace st"
    and "calculateMinimumScale st p = Some m"
  shows "onWheel st ev p =
     Some (p\<lparr>scale := max m (scale p * (if deltaY ev < 0 then 1.1 else 1 / 1.1)),
             offsetX := constrainOffset st
                ((clientX ev - rectLeft ev)
                  - (clientX ev - rectLeft ev - offsetX p) / scale p
                    * max m (scale p * (if deltaY ev < 0 then 1.1 else 1 / 1.1)))
                (p\<lparr>scale := max m (scale p * (if deltaY ev < 0 then 1.1 else 1 / 1.1))\<rparr>) AxisX,
             offsetY := constrainOffset st
                ((clientY ev - rectTop ev)
                  - (clientY ev - rectTop ev - offsetY p) / scale p
                    * max m (scale p * (if deltaY ev < 0 then 1.1 else 1 / 1.1)))
                (p\<lparr>scale := max m (scale p * (if deltaY ev < 0 then 1.1 else 1 / 1.1))\<rparr>) AxisY\<rparr>)"
  using assms by (simp add: onWheel_def jsDiv_def Let_def)

text \<open>
  Claim C7. A wheel step on a placeholder with an image (of non-zero scale, and of
  non-zero image size when whitespace is disallowed) multiplies the scale by 1.1 when
  \<open>deltaY\<close> is negative and by 1/1.1 otherwise; when whitespace is disallowed the
  result is the larger of that product and the minimum cover scale
  max (placeholder width / image width, placeholder height / image height), so the new
  scale is not below the minimum cover scale.
\<close>

theorem onWheel_scale:
  assumes "\<not> noImage p" and "scale p \<noteq> 0"
    and "allowWhitespace st \<or> (imageWidth p \<noteq> 0 \<and> imageHeight p \<noteq> 0)"
  shows "\<exists>p'. onWheel st ev p = Some p' \<and>
           (allowWhitespace st \<longrightarrow>
              scale p' = scale p * (if deltaY ev < 0 then 1.1 else 1 / 1.1)) \<and>
           (\<not> allowWhitespace st \<longrightarrow>
              calculateMinimumScale st p =
                Some (max (pictureWidth st * (96 / 25.4) / imageWidth p)
                          (pictureHeightMm st * (96 / 25.4) / imageHeight p)) \<and>
              scale p' =
                max (max (pictureWidth st * (96 / 25.4) / imageWidth p)
                         (pictureHeightMm st * (96 / 25.4) / imageHeight p))
                    (scale p * (if deltaY ev < 0 then 1.1 else 1 / 1.1)) \<and>
              max (pictureWidth st * (96 / 25.4) / imageWidth p)
                  (pictureHeightMm st * (96 / 25.4) / imageHeight p) \<le> scale p')"
proof (cases "allowWhitespace st")
  case True
  from onWheel_whitespace[OF assms(1,2) True, of ev] True show ?thesis by simp
next
  case False
  with assms(3) have nz: "imageWidth p \<noteq> 0" "imageHeight p \<noteq> 0" by simp_all
  let ?M = "max (pictureWidth st * (96 / 25.4) / imageWidth p)
                (pictureHeightMm st * (96 / 25.4) / imageHeight p)"
  let ?S = "scale p * (if deltaY ev < 0 then 1.1 else 1 / 1.1)"
  have m: "calculateMinimumScale st p = Some ?M"
    unfolding calculateMinimumScale_Some[OF nz, of st] mmToCssPx_def ..
  from onWheel_cover[OF assms(1,2) False m, of ev]
  obtain p' where p': "onWheel st ev p = Some p'" and sc: "scale p' = max ?M ?S"
    by simp
  have "?M \<le> max ?M ?S" by (rule max.cobounded1)
  with sc have "?M \<le> scale p'" by (simp only:)
  with p' sc m False show ?thesis by blast
qed

text \<open>Zooming out from scale 2 over a minimum cover scale of 1 gives 20/11.\<close>

theorem onWheel_scale_witness:
  "\<exists>p'. onWheel ((initialComponent emptyStorage)\<lparr>pictureWidth := 25.4, pictureHeight := 25.4\<rparr>)
           \<lparr>deltaY = 100, clientX = 0, clientY = 0, rectLeft = 0, rectTop = 0\<rparr>
           \<lparr>id_ph = 0, imageData = Some ''data:image/png;base64,AAAA'', offsetX = - 96,
            offsetY = - 96, scale = 2, imageWidth = 96, imageHeight = 96, left = 5, top_mm = 7,
            isDragOver = Some False, isDraggingImage = None\<rparr> = Some p' \<and>
     scale p' = 20 / 11 \<and> 1 \<le> scale p'"
proof -
  let ?st = "(initialComponent emptyStorage)\<lparr>pictureWidth := 25.4, pictureHeight := 25.4\<rparr>"
  let ?ev = "\<lparr>deltaY = 100, clientX = 0, clientY = 0, rectLeft = 0, rectTop = 0\<rparr>"
  let ?p = "\<lparr>id_ph = 0, imageData = Some ''data:image/png;base64,AAAA'', offsetX = - 96,
            offsetY = - 96, scale = 2, imageWidth = 96, imageHeight = 96, left = 5, top_mm = 7,
            isDragOver = Some False, isDraggingImage = None\<rparr>"
  have a: "\<not> noImage ?p" by (simp add: noImage_def)
  have b: "scale ?p \<noteq> 0" by simp
  have c: "allowWhitespace ?st \<or> (imageWidth ?p \<noteq> 0 \<and> imageHeight ?p \<noteq> 0)" by simp
  have d: "\<not> allowWhitespace ?st" by (simp add: initialComponent_def)
  from onWheel_scale[OF a b c, of ?ev] d
  obtain p' where p': "onWheel ?st ?ev ?p = Some p'"
    and sc: "scale p' =
                max (max (pictureWidth ?st * (96 / 25.4) / imageWidth ?p)
                         (pictureHeightMm ?st * (96 / 25.4) / imageHeight ?p))
                    (scale ?p * (if deltaY ?ev < 0 then 1.1 else 1 / 1.1))"
    by blast
  from sc have "scale p' = 20 / 11"
    by (simp add: initialComponent_def pictureHeightMm_def)
  with p' show ?thesis by simp
qed




subsection \<open>Settings\<close>

text \<open>
  Claim C9. Loading the settings merges the stored record over the defaults key by
  key: when nothing is stored, the result is exactly the defaults; when a non-empty
  text is stored that parses to an object, every key of that object has its stored
  value in the result, and every other key has its default (and is absent when it has
  none).
\<close>

theorem loadSettings_merge:
  "(\<not> readFails ls \<and> items ls SETTINGS_KEY = None \<longrightarrow>
      loadSettings parse ls = map_of DEFAULT_SETTINGS) \<and>
   (\<not> readFails ls \<and> items ls SETTINGS_KEY = Some stored \<and> stored \<noteq> [] \<and>
    parse stored = Some (JObject props) \<longrightarrow>
      (\<forall>key. loadSettings parse ls key =
         (case map_of props key of
            Some v \<Rightarrow> Some v
          | None \<Rightarrow> map_of DEFAULT_SETTINGS key)))"
  by (simp add: loadSettings_def getItem_def map_add_def)

text \<open>
  Nothing stored gives the defaults; a stored record with only a picture width of 50
  gives that width and the default margins of 4.
\<close>

theorem loadSettings_merge_witness:
  "loadSettings (\<lambda>s. None) emptyStorage = map_of DEFAULT_SETTINGS \<and>
   loadSettings
     (\<lambda>s. if s = ''{'' @ [CHR 0x22] @ ''pictureWidth'' @ [CHR 0x22] @ '':50}''
          then Some (JObject [(''pictureWidth'', JNumber 50)]) else None)
     (emptyStorage\<lparr>items :=
        [SETTINGS_KEY \<mapsto> ''{'' @ [CHR 0x22] @ ''pictureWidth'' @ [CHR 0x22] @ '':50}'']\<rparr>)
     ''pictureWidth'' = Some (JNumber 50) \<and>
   loadSettings
     (\<lambda>s. if s = ''{'' @ [CHR 0x22] @ ''pictureWidth'' @ [CHR 0x22] @ '':50}''
          then Some (JObject [(''pictureWidth'', JNumber 50)]) else None)
     (emptyStorage\<lparr>items :=
        [SETTINGS_KEY \<mapsto> ''{'' @ [CHR 0x22] @ ''pictureWidth'' @ [CHR 0x22] @ '':50}'']\<rparr>)
     ''margins'' = Some (JNumber 4)"
proof -
  let ?text = "''{'' @ [CHR 0x22] @ ''pictureWidth'' @ [CHR 0x22] @ '':50}''"
  let ?parse = "\<lambda>s. if s = ?text then Some (JObject [(''pictureWidth'', JNumber 50)]) else None"
  let ?ls = "emptyStorage\<lparr>items := [SETTINGS_KEY \<mapsto> ?text]\<rparr>"
  have a: "\<not> readFails emptyStorage \<and> items emptyStorage SETTINGS_KEY = None"
    by (simp add: emptyStorage_def)
  have b: "\<not> readFails ?ls \<and> items ?ls SETTINGS_KEY = Some ?text \<and> ?text \<noteq> [] \<and>
      ?parse ?text = Some (JObject [(''pictureWidth'', JNumber 50)])"
    by (simp add: emptyStorage_def)
  from loadSettings_merge[where ls = emptyStorage and parse = "\<lambda>s. None"] a
  have 1: "loadSettings (\<lambda>s. None) emptyStorage = map_of DEFAULT_SETTINGS" by blast
  from loadSettings_merge[where ls = ?ls and parse = ?parse and stored = ?text
      and props = "[(''pictureWidth'', JNumber 50)]"] b
  have m: "\<forall>key. loadSettings ?parse ?ls key =
         (case map_of [(''pictureWidth'', JNumber 50)] key of
            Some v \<Rightarrow> Some v
          | None \<Rightarrow> map_of DEFAULT_SETTINGS key)"
    by blast
  have 2: "loadSettings ?parse ?ls ''pictureWidth'' = Some (JNumber 50)"
    unfolding m[rule_format] by simp
  have 3: "loadSettings ?parse ?ls ''margins'' = Some (JNumber 4)"
    unfolding m[rule_format] by (simp add: DEFAULT_SETTINGS_def)
  from 1 2 3 show ?thesis by blast
qed

text \<open>The default settings on the first paper size always give a grid of 3 by 2.\<close>

lemma restored_grid:
  assumes "selectedPaperSize st = paperSizes ! 0" "pictureWidth st = 44" "pictureHeight st = 44"
    "margins st = 4" "spacing st = 2" "placeholderShape st = Rectangular"
  shows "calculateGrid st =
    placeGrid 3 2 (st\<lparr>hasLayoutError := False, errorMessage := NoMessage\<rparr>)"
  by (rule calculateGrid_grid)
    (simp_all add: assms paperWidthMm_def paperHeightMm_def pictureWidthMm_def
      pictureHeightMm_def minRequiredWidth_def minRequiredHeight_def availableWidth_def
      availableHeight_def fitColumns_def fitRows_def paperSizes_def floorDiv_def)

text \<open>
  Claim C10. From every state, \<^verbatim>\<open>restoreSettings\<close> returns, and leaves the paper size
  selection (index 0, 10 x 15 cm), the picture width and height (44), the margins (4),
  the spacing (2), \<open>allowWhitespace\<close> (false), \<open>showCropMarks\<close> (true) and the
  placeholder shape (rectangular) at their defaults and the dark mode as it was, in
  the component and in the settings record that it hands to the storage service;
  unless the write fails, that record is what the store then holds under the
  settings key.
\<close>

theorem restoreSettings_defaults:
  "\<exists>st'. restoreSettings stringify st = Inr st' \<and>
     selectedPaperSizeIndex st' = 0 \<and>
     selectedPaperSize st' = paperSizes ! 0 \<and>
     width (selectedPaperSize st') = 10 \<and> height (selectedPaperSize st') = 15 \<and>
     pictureWidth st' = 44 \<and> pictureHeight st' = 44 \<and>
     margins st' = 4 \<and> spacing st' = 2 \<and>
     \<not> allowWhitespace st' \<and> showCropMarks st' \<and>
     placeholderShape st' = Rectangular \<and>
     isDarkMode st' = isDarkMode st \<and>
     currentSettings st' =
       JObject
         [(''selectedPaperSizeIndex'', JNumber 0),
          (''pictureWidth'', JNumber 44),
          (''pictureHeight'', JNumber 44),
          (''margins'', JNumber 4),
          (''spacing'', JNumber 2),
          (''allowWhitespace'', JBool False),
          (''showCropMarks'', JBool True),
          (''isDarkMode'', JBool (isDarkMode st)),
          (''placeholderShape'', JString ''rectangular'')] \<and>
     storage st' = storeSettings stringify (storage st) (currentSettings st') \<and>
     (\<not> writeFails (storage st) \<longrightarrow>
        items (storage st') SETTINGS_KEY = Some (stringify (currentSettings st')))"
proof -
  let ?st1 = "st\<lparr>selectedPaperSizeIndex := 0, selectedPaperSize := paperSizes ! 0,
                   pictureWidth := 44, pictureHeight := 44, margins := 4, spacing := 2,
                   allowWhitespace := False, showCropMarks := True,
                   placeholderShape := Rectangular\<rparr>"
  have g: "calculateGrid ?st1 =
      placeGrid 3 2 (?st1\<lparr>hasLayoutError := False, errorMessage := NoMessage\<rparr>)"
    by (rule restored_grid) simp_all
  obtain st2 where p: "placeGrid 3 2 (?st1\<lparr>hasLayoutError := False, errorMessage := NoMessage\<rparr>) = Inr st2"
    by (simp add: placeGrid_def Let_def)
  from p have f: "selectedPaperSizeIndex st2 = 0" "selectedPaperSize st2 = paperSizes ! 0"
    "pictureWidth st2 = 44" "pictureHeight st2 = 44" "margins st2 = 4" "spacing st2 = 2"
    "\<not> allowWhitespace st2" "showCropMarks st2" "placeholderShape st2 = Rectangular"
    "isDarkMode st2 = isDarkMode st" "storage st2 = storage st"
    by (auto simp: placeGrid_def Let_def)
  have r: "restoreSettings stringify st = Inr (saveSettings stringify st2)"
    by (simp add: restoreSettings_def Let_def g p)
  have cs: "currentSettings (saveSettings stringify st2) = currentSettings st2"
    by (simp add: saveSettings_def currentSettings_def)
  have c2: "currentSettings st2 =
       JObject
         [(''selectedPaperSizeIndex'', JNumber 0),
          (''pictureWidth'', JNumber 44),
          (''pictureHeight'', JNumber 44),
          (''margins'', JNumber 4),
          (''spacing'', JNumber 2),
          (''allowWhitespace'', JBool False),
          (''showCropMarks'', JBool True),
          (''isDarkMode'', JBool (isDarkMode st)),
          (''placeholderShape'', JString ''rectangular'')]"
    using f by (simp add: currentSettings_def shapeName_def)
  have s: "storage (saveSettings stringify st2) =
      storeSettings stringify (storage st) (currentSettings st2)"
    using f by (simp add: saveSettings_def)
  have w: "\<not> writeFails (storage st) \<longrightarrow>
      items (storage (saveSettings stringify st2)) SETTINGS_KEY =
        Some (stringify (currentSettings st2))"
    unfolding s by (simp add: storeSettings_def setItem_def)
  have fields: "selectedPaperSizeIndex (saveSettings stringify st2) = 0"
    "selectedPaperSize (saveSettings stringify st2) = paperSizes ! 0"
    "width (selectedPaperSize (saveSettings stringify st2)) = 10"
    "height (selectedPaperSize (saveSettings stringify st2)) = 15"
    "pictureWidth (saveSettings stringify st2) = 44"
    "pictureHeight (saveSettings stringify st2) = 44"
    "margins (saveSettings stringify st2) = 4" "spacing (saveSettings stringify st2) = 2"
    "\<not> allowWhitespace (saveSettings stringify st2)" "showCropMarks (saveSettings stringify st2)"
    "placeholderShape (saveSettings stringify st2) = Rectangular"
    "isDarkMode (saveSettings stringify st2) = isDarkMode st"
    using f by (simp_all add: saveSettings_def paperSizes_def)
  show ?thesis
    apply (rule exI[of _ "saveSettings stringify st2"])
    apply (simp only: r cs fields c2[symmetric] s simp_thms)
    apply (simp add: paperSizes_def w[unfolded s])
    done
qed

text \<open>
  A component in dark mode with changed width, spacing and shape, over a writable
  store.
\<close>

theorem restoreSettings_defaults_witness:
  "\<exists>st'. restoreSettings (\<lambda>v. ''settings'')
       ((initialComponent emptyStorage)\<lparr>isDarkMode := True, pictureWidth := 60, spacing := 5,
          placeholderShape := Round\<rparr>) = Inr st' \<and>
     pictureWidth st' = 44 \<and> spacing st' = 2 \<and> placeholderShape st' = Rectangular \<and>
     isDarkMode st' \<and>
     currentSettings st' =
       JObject
         [(''selectedPaperSizeIndex'', JNumber 0),
          (''pictureWidth'', JNumber 44),
          (''pictureHeight'', JNumber 44),
          (''margins'', JNumber 4),
          (''spacing'', JNumber 2),
          (''allowWhitespace'', JBool False),
          (''showCropMarks'', JBool True),
          (''isDarkMode'', JBool True),
          (''placeholderShape'', JString ''rectangular'')] \<and>
     items (storage st') SETTINGS_KEY = Some ''settings''"
proof -
  let ?st = "(initialComponent emptyStorage)\<lparr>isDarkMode := True, pictureWidth := 60, spacing := 5,
          placeholderShape := Round\<rparr>"
  have w: "\<not> writeFails (storage ?st)" by (simp add: initialComponent_def emptyStorage_def)
  have d: "isDarkMode ?st" by simp
  from restoreSettings_defaults[of "\<lambda>v. ''settings''" ?st] w d show ?thesis
    by auto
qed

end
